theory Spec2Isabelle
  imports Complex_Main "HOL-Library.Multiset"
begin

section \<open>Python values used by the text-analysis functions of app.py\<close>

text \<open>
  The exceptions that the analysed functions can raise: a division by zero
  (\<open>sum(...) / len(word_freq)\<close>), the unpacking of too few values
  (\<open>words, counts = zip(*...)\<close>) and an ordering comparison with \<open>None\<close>.
\<close>

datatype py_error = ZeroDivisionError | ValueError | TypeError

text \<open>
  A Python float: a finite value, the two infinities, or not-a-number. Finite values
  are real numbers: rounding and overflow of the 64-bit format are not modelled.
\<close>

datatype pyfloat = Fin real | PInf | NInf | NaN

text \<open>The comparison \<open>x < y\<close> of two floats; every comparison with NaN is false.\<close>

fun flt :: "pyfloat \<Rightarrow> pyfloat \<Rightarrow> bool" where
  "flt NaN y = False"
| "flt x NaN = False"
| "flt (Fin a) (Fin b) = (a < b)"
| "flt (Fin a) PInf = True"
| "flt (Fin a) NInf = False"
| "flt PInf y = False"
| "flt NInf NInf = False"
| "flt NInf y = True"

text \<open>
  An argument of the classifier: Python is dynamically typed, so besides a float the
  caller can pass \<open>None\<close>, the usual stand-in for an undefined statistic.
\<close>

datatype pyval = PyNone | PyFloat pyfloat

text \<open>
  \<open>v < k\<close> for an integer literal \<open>k\<close>: with \<open>None\<close> on the left
  Python 3 raises TypeError.
\<close>

fun py_lt :: "pyval \<Rightarrow> real \<Rightarrow> py_error + bool" where
  "py_lt PyNone k = Inl TypeError"
| "py_lt (PyFloat x) k = Inr (flt x (Fin k))"

section \<open>The classifier\<close>

text \<open>
  \<^verbatim>\<open>
  def is_generated_text(perplexity, burstiness_score):
      if perplexity < 100 and burstiness_score < 1:
          return "Likely generated by a language model"
      else:
          return "Not likely generated by a language model"
  \<close>
  \<open>and\<close> evaluates its right operand only when the left one is true.
\<close>

definition is_generated_text :: "pyval \<Rightarrow> pyval \<Rightarrow> py_error + string" where
  "is_generated_text perplexity burstiness_score =
     (case py_lt perplexity 100 of
        Inl e \<Rightarrow> Inl e
      | Inr False \<Rightarrow> Inr ''Not likely generated by a language model''
      | Inr True \<Rightarrow>
          (case py_lt burstiness_score 1 of
             Inl e \<Rightarrow> Inl e
           | Inr True \<Rightarrow> Inr ''Likely generated by a language model''
           | Inr False \<Rightarrow> Inr ''Not likely generated by a language model''))"

section \<open>The preprocessor\<close>

text \<open>
  The tokenizer \<open>nltk.word_tokenize\<close> and the list \<open>stopwords.words('english')\<close>
  belong to the NLTK library and its data files, not to this program: they are the
  two fields of the environment every function of app.py takes here.
\<close>

record nltk_data =
  word_tokenize :: "string \<Rightarrow> string list"
  stopwords_english :: "string list"

text \<open>\<open>str.lower()\<close> on ASCII text: the letters A to Z move to a to z.\<close>

definition lower_char :: "char \<Rightarrow> char" where
  "lower_char c =
     (let n = (of_char c :: nat) in if 65 \<le> n \<and> n \<le> 90 then char_of (n + 32) else c)"

definition lower :: "string \<Rightarrow> string" where
  "lower s = map lower_char s"

text \<open>
  \<open>string.punctuation\<close>, the 32 characters
  \<^verbatim>\<open>!"#$%&'()*+,-./:;<=>?@[\]^_`{|}~\<close> in this order.
\<close>

definition string_punctuation :: string where
  "string_punctuation =
     [CHR 0x21, CHR 0x22, CHR 0x23, CHR 0x24, CHR 0x25, CHR 0x26, CHR 0x27, CHR 0x28,
      CHR 0x29, CHR 0x2A, CHR 0x2B, CHR 0x2C, CHR 0x2D, CHR 0x2E, CHR 0x2F,
      CHR 0x3A, CHR 0x3B, CHR 0x3C, CHR 0x3D, CHR 0x3E, CHR 0x3F, CHR 0x40,
      CHR 0x5B, CHR 0x5C, CHR 0x5D, CHR 0x5E, CHR 0x5F, CHR 0x60,
      CHR 0x7B, CHR 0x7C, CHR 0x7D, CHR 0x7E]"

text \<open>
  \<open>a in b\<close> for two strings is Python's substring test: \<open>a\<close> occurs in
  \<open>b\<close> as a contiguous run of characters (the empty string occurs in every string).
\<close>

fun str_contains :: "string \<Rightarrow> string \<Rightarrow> bool" where
  "str_contains [] a = (a = [])"
| "str_contains (c # cs) a = (take (length a) (c # cs) = a \<or> str_contains cs a)"

text \<open>
  \<^verbatim>\<open>
  def preprocess_text(text):
      tokens = nltk.word_tokenize(text.lower())
      stop_words = set(stopwords.words('english'))
      tokens = [token for token in tokens
                if token not in stop_words and token not in string.punctuation]
      return tokens
  \<close>
\<close>

definition preprocess_text :: "nltk_data \<Rightarrow> string \<Rightarrow> string list" where
  "preprocess_text nl text =
     (let tokens = word_tokenize nl (lower text);
          stop_words = set (stopwords_english nl)
      in [token \<leftarrow> tokens.
            token \<notin> stop_words \<and> \<not> str_contains string_punctuation token])"

section \<open>Frequency distributions\<close>

text \<open>
  \<open>nltk.FreqDist\<close> is a \<open>collections.Counter\<close>, a dictionary that keeps its keys
  in the order of their first insertion: \<open>FreqDist(tokens)\<close> runs over the tokens and
  adds one to the count of each. \<open>items()\<close> and \<open>values()\<close> iterate in that order.
\<close>

type_synonym freqdist = "(string \<times> nat) list"

fun freq_inc :: "string \<Rightarrow> freqdist \<Rightarrow> freqdist" where
  "freq_inc w [] = [(w, 1)]"
| "freq_inc w ((k, c) # fd) = (if k = w then (k, c + 1) # fd else (k, c) # freq_inc w fd)"

definition FreqDist :: "string list \<Rightarrow> freqdist" where
  "FreqDist tokens = foldl (\<lambda>fd w. freq_inc w fd) [] tokens"

text \<open>\<open>word_freq[word]\<close>: a Counter answers 0 for a key it does not hold.\<close>

definition fd_get :: "freqdist \<Rightarrow> string \<Rightarrow> nat" where
  "fd_get fd w = (case map_of fd w of None \<Rightarrow> 0 | Some c \<Rightarrow> c)"

text \<open>
  \<open>Counter.most_common(n)\<close> is \<open>heapq.nlargest(n, self.items(), key=itemgetter(1))\<close>,
  which the Python library documents as
  \<open>sorted(self.items(), key=itemgetter(1), reverse=True)[:n]\<close>: a stable sort by
  descending count (\<open>reverse=True\<close> keeps the original order of equal keys), cut
  after \<open>n\<close> items. \<open>sort_key\<close> is a stable insertion sort by ascending key, so
  the key is the negated count.
\<close>

definition most_common :: "nat \<Rightarrow> freqdist \<Rightarrow> freqdist" where
  "most_common n fd = take n (sort_key (\<lambda>(w, c). - int c) fd)"

text \<open>
  \<open>words, counts = zip(*pairs)\<close>: \<open>zip\<close> of no argument yields nothing and the
  unpacking into two names raises ValueError; for one or more pairs \<open>zip\<close> yields
  exactly two tuples, the first components and the second components.
\<close>

definition unpack_zip :: "('a \<times> 'b) list \<Rightarrow> py_error + ('a list \<times> 'b list)" where
  "unpack_zip pairs =
     (case pairs of [] \<Rightarrow> Inl ValueError | _ # _ \<Rightarrow> Inr (map fst pairs, map snd pairs))"

text \<open>
  \<^verbatim>\<open>
  def plot_most_common_words(text):
      tokens = preprocess_text(text)
      word_freq = nltk.FreqDist(tokens)
      most_common_words = word_freq.most_common(10)
      words, counts = zip(*most_common_words)
      ... plt.bar(words, counts) ... st.pyplot(plt)
  \<close>
  The result is the data of the bar chart that is drawn.
\<close>

definition plot_most_common_words ::
    "nltk_data \<Rightarrow> string \<Rightarrow> py_error + (string list \<times> nat list)" where
  "plot_most_common_words nl text =
     (let tokens = preprocess_text nl text;
          word_freq = FreqDist tokens;
          most_common_words = most_common 10 word_freq
      in unpack_zip most_common_words)"

text \<open>
  \<^verbatim>\<open>
  def plot_repeated_words(text):
      tokens = preprocess_text(text)
      word_freq = nltk.FreqDist(tokens)
      repeated_words = [word for word, count in word_freq.items() if count > 1][:10]
      words, counts = zip(*[(word, word_freq[word]) for word in repeated_words])
      ... plt.bar(words, counts) ... st.pyplot(plt)
  \<close>
  \<open>repeated_words\<close> is the list the third line builds, \<open>repeated_pairs\<close> the list
  of pairs the fourth line hands to \<open>zip\<close>.
\<close>

definition repeated_words :: "nltk_data \<Rightarrow> string \<Rightarrow> string list" where
  "repeated_words nl text =
     (let tokens = preprocess_text nl text;
          word_freq = FreqDist tokens
      in take 10 [word. (word, cnt) \<leftarrow> word_freq, cnt > 1])"

definition repeated_pairs :: "nltk_data \<Rightarrow> string \<Rightarrow> (string \<times> nat) list" where
  "repeated_pairs nl text =
     (let word_freq = FreqDist (preprocess_text nl text)
      in [(word, fd_get word_freq word). word \<leftarrow> repeated_words nl text])"

definition plot_repeated_words ::
    "nltk_data \<Rightarrow> string \<Rightarrow> py_error + (string list \<times> nat list)" where
  "plot_repeated_words nl text = unpack_zip (repeated_pairs nl text)"

section \<open>Burstiness\<close>

text \<open>
  \<^verbatim>\<open>
  def calculate_burstiness(text):
      tokens = preprocess_text(text)
      word_freq = nltk.FreqDist(tokens)
      avg_freq = sum(word_freq.values()) / len(word_freq)
      variance = sum((freq - avg_freq) ** 2 for freq in word_freq.values()) / len(word_freq)
      burstiness_score = variance / (avg_freq ** 2)
      return burstiness_score
  \<close>
  Each of the three divisions raises ZeroDivisionError on a zero divisor.
\<close>

definition calculate_burstiness :: "nltk_data \<Rightarrow> string \<Rightarrow> py_error + real" where
  "calculate_burstiness nl text =
     (let tokens = preprocess_text nl text;
          word_freq = FreqDist tokens;
          vals = map snd word_freq
      in if length word_freq = 0 then Inl ZeroDivisionError
         else
           let avg_freq = real (sum_list vals) / real (length word_freq);
               variance = (\<Sum>freq\<leftarrow>vals. (real freq - avg_freq) ^ 2) / real (length word_freq)
           in if avg_freq ^ 2 = 0 then Inl ZeroDivisionError
              else Inr (variance / avg_freq ^ 2))"

section \<open>The n-gram language model of nltk.lm\<close>

text \<open>
  \<open>nltk.util.ngrams(sequence, n)\<close>: the windows of \<open>n\<close> consecutive items, from
  left to right; none when the sequence is shorter than \<open>n\<close> or \<open>n\<close> is 0.
\<close>

definition ngrams :: "'a list \<Rightarrow> nat \<Rightarrow> 'a list list" where
  "ngrams xs n =
     (if n = 0 then [] else map (\<lambda>i. take n (drop i xs)) [0 ..< Suc (length xs) - n])"

text \<open>
  \<open>pad_both_ends(sent, n)\<close> puts \<open>n - 1\<close> copies of \<open><s>\<close> before the sentence and
  \<open>n - 1\<close> copies of \<open></s>\<close> after it; \<open>everygrams(seq, max_len=n)\<close> yields the
  n-grams of every length from 1 to \<open>n\<close> (their order plays no role in the counts).
\<close>

definition pad_both_ends :: "string list \<Rightarrow> nat \<Rightarrow> string list" where
  "pad_both_ends sent n = replicate (n - 1) ''<s>'' @ sent @ replicate (n - 1) ''</s>''"

definition everygrams :: "'a list \<Rightarrow> nat \<Rightarrow> 'a list list" where
  "everygrams xs max_len = concat (map (ngrams xs) [1 ..< Suc max_len])"

text \<open>
  \<^verbatim>\<open>
  def padded_everygram_pipeline(order, text):
      padding_fn = partial(pad_both_ends, n=order)
      return (
          (everygrams(list(padding_fn(sent)), max_len=order) for sent in text),
          flatten(map(padding_fn, text)),
      )
  \<close>
  \<open>text\<close> is a sequence of sentences, each a sequence of words.
\<close>

definition padded_everygram_pipeline ::
    "nat \<Rightarrow> string list list \<Rightarrow> string list list list \<times> string list" where
  "padded_everygram_pipeline ord text =
     (map (\<lambda>sent. everygrams (pad_both_ends sent ord) ord) text,
      concat (map (\<lambda>sent. pad_both_ends sent ord) text))"

text \<open>
  A fitted model: its order, the words counted into its vocabulary, and the n-grams
  counted by its \<open>NgramCounter\<close> (one list entry per counted occurrence).
\<close>

record lang_model =
  order :: nat
  vocab_counts :: "string list"
  ngram_counts :: "string list list"

text \<open>
  \<open>Vocabulary\<close> with the default cutoff 1: a word is a member when it was counted at
  least once, and the label \<open><UNK>\<close> is always a member. \<open>lookup\<close> keeps a member
  and maps every other word to \<open><UNK>\<close>.
\<close>

definition vocab_lookup :: "string list \<Rightarrow> string \<Rightarrow> string" where
  "vocab_lookup vc w = (if w = ''<UNK>'' \<or> w \<in> set vc then w else ''<UNK>'')"

text \<open>
  \<^verbatim>\<open>
  def fit(self, text, vocabulary_text=None):
      if not self.vocab:
          ...
          self.vocab.update(vocabulary_text)
      self.counts.update(self.vocab.lookup(sent) for sent in text)
  \<close>
  for a model made by \<open>MLE(n)\<close>, whose vocabulary is empty before the call.
\<close>

definition MLE_fit :: "nat \<Rightarrow> string list list list \<Rightarrow> string list \<Rightarrow> lang_model" where
  "MLE_fit n text vocabulary_text =
     \<lparr>order = n,
      vocab_counts = vocabulary_text,
      ngram_counts = map (map (vocab_lookup vocabulary_text)) (concat text)\<rparr>"

text \<open>
  \<open>context_counts(context)\<close> is the frequency distribution of the words counted
  after \<open>context\<close>: \<open>counts.unigrams\<close> for the empty context, otherwise
  \<open>counts[len(context) + 1][context]\<close>. It is given here by its samples.
\<close>

definition context_counts :: "lang_model \<Rightarrow> string list \<Rightarrow> string list" where
  "context_counts m context =
     [last g. g \<leftarrow> ngram_counts m, length g = Suc (length context) \<and> butlast g = context]"

text \<open>\<open>FreqDist.freq(sample)\<close>: the relative frequency, 0 when nothing was counted.\<close>

definition freq :: "string list \<Rightarrow> string \<Rightarrow> real" where
  "freq samples w =
     (if length samples = 0 then 0
      else real (count_list samples w) / real (length samples))"

text \<open>
  \<^verbatim>\<open>
  def unmasked_score(self, word, context=None):        # class MLE
      return self.context_counts(context).freq(word)
  def score(self, word, context=None):
      return self.unmasked_score(
          self.vocab.lookup(word), self.vocab.lookup(context) if context else None)
  \<close>
\<close>

definition score :: "lang_model \<Rightarrow> string \<Rightarrow> string list \<Rightarrow> real" where
  "score m word context =
     freq (context_counts m (map (vocab_lookup (vocab_counts m)) context))
          (vocab_lookup (vocab_counts m) word)"

text \<open>
  \<^verbatim>\<open>
  def log_base2(score):
      if score == 0.0:
          return NEG_INF
      return log(score, 2)
  def logscore(self, word, context=None):
      return log_base2(self.score(word, context))
  \<close>
\<close>

definition log_base2 :: "real \<Rightarrow> pyfloat" where
  "log_base2 s = (if s = 0 then NInf else Fin (log 2 s))"

definition logscore :: "lang_model \<Rightarrow> string \<Rightarrow> string list \<Rightarrow> pyfloat" where
  "logscore m word context = log_base2 (score m word context)"

text \<open>Float addition, negation, division by a length and \<open>pow(2.0, x)\<close>.\<close>

fun fadd :: "pyfloat \<Rightarrow> pyfloat \<Rightarrow> pyfloat" where
  "fadd NaN y = NaN"
| "fadd x NaN = NaN"
| "fadd (Fin a) (Fin b) = Fin (a + b)"
| "fadd PInf NInf = NaN"
| "fadd NInf PInf = NaN"
| "fadd PInf y = PInf"
| "fadd x PInf = PInf"
| "fadd NInf y = NInf"
| "fadd x NInf = NInf"

fun fneg :: "pyfloat \<Rightarrow> pyfloat" where
  "fneg (Fin a) = Fin (- a)"
| "fneg PInf = NInf"
| "fneg NInf = PInf"
| "fneg NaN = NaN"

fun fdiv_len :: "pyfloat \<Rightarrow> nat \<Rightarrow> py_error + pyfloat" where
  "fdiv_len x 0 = Inl ZeroDivisionError"
| "fdiv_len (Fin a) n = Inr (Fin (a / real n))"
| "fdiv_len x n = Inr x"

fun fpow2 :: "pyfloat \<Rightarrow> pyfloat" where
  "fpow2 (Fin a) = Fin (2 powr a)"
| "fpow2 PInf = PInf"
| "fpow2 NInf = Fin 0"
| "fpow2 NaN = NaN"

text \<open>
  \<^verbatim>\<open>
  def _mean(items):
      return sum(items) / len(items)
  def entropy(self, text_ngrams):
      return -1 * _mean(
          [self.logscore(ngram[-1], ngram[:-1]) for ngram in text_ngrams])
  def perplexity(self, text_ngrams):
      return pow(2.0, self.entropy(text_ngrams))
  \<close>
\<close>

definition mean_items :: "pyfloat list \<Rightarrow> py_error + pyfloat" where
  "mean_items items = fdiv_len (foldl fadd (Fin 0) items) (length items)"

definition entropy :: "lang_model \<Rightarrow> string list list \<Rightarrow> py_error + pyfloat" where
  "entropy m text_ngrams =
     (case mean_items [logscore m (last ngram) (butlast ngram). ngram \<leftarrow> text_ngrams] of
        Inl e \<Rightarrow> Inl e
      | Inr x \<Rightarrow> Inr (fneg x))"

definition perplexity :: "lang_model \<Rightarrow> string list list \<Rightarrow> py_error + pyfloat" where
  "perplexity m text_ngrams =
     (case entropy m text_ngrams of Inl e \<Rightarrow> Inl e | Inr h \<Rightarrow> Inr (fpow2 h))"

section \<open>Perplexity of a text\<close>

text \<open>
  \<^verbatim>\<open>
  def calculate_perplexity(text, model):
      tokens = preprocess_text(text)
      padded_tokens = ['<s>'] + tokens + ['</s>']
      ngrams_sequence = list(ngrams(padded_tokens, model.order))
      perplexity = model.perplexity(ngrams_sequence)
      return perplexity
  \<close>
\<close>

definition calculate_perplexity ::
    "nltk_data \<Rightarrow> string \<Rightarrow> lang_model \<Rightarrow> py_error + pyfloat" where
  "calculate_perplexity nl text model =
     (let tokens = preprocess_text nl text;
          padded_tokens = [''<s>''] @ tokens @ [''</s>''];
          ngrams_sequence = ngrams padded_tokens (order model)
      in perplexity model ngrams_sequence)"

text \<open>
  The model that \<open>main\<close> trains before every analysis:
  \<^verbatim>\<open>
  tokens = nltk.corpus.brown.words()
  train_data, padded_vocab = padded_everygram_pipeline(1, tokens)
  model = MLE(1)
  model.fit(train_data, padded_vocab)
  \<close>
  \<open>tokens\<close> is a flat sequence of words, and the pipeline iterates over each of its
  items as over a sentence: iterating over a Python string yields its characters, each
  a string of length one. The corpus is a parameter.
\<close>

definition chars_of :: "string \<Rightarrow> string list" where
  "chars_of w = map (\<lambda>c. [c]) w"

definition train_model :: "string list \<Rightarrow> lang_model" where
  "train_model tokens =
     (let (train_data, padded_vocab) = padded_everygram_pipeline 1 (map chars_of tokens)
      in MLE_fit 1 train_data padded_vocab)"

section \<open>The text analysis of main\<close>

text \<open>
  \<^verbatim>\<open>
  if text:
      tokens = nltk.corpus.brown.words()
      train_data, padded_vocab = padded_everygram_pipeline(1, tokens)
      model = MLE(1)
      model.fit(train_data, padded_vocab)
      perplexity = calculate_perplexity(text, model)
      st.write("Perplexity:", perplexity)
      burstiness_score = calculate_burstiness(text)
      st.write("Burstiness Score:", burstiness_score)
      generated_cue = is_generated_text(perplexity, burstiness_score)
      st.write("Text Analysis Result:", generated_cue)
      plot_most_common_words(text)
      plot_repeated_words(text)
  else:
      st.warning("Please enter some text to analyze.")
  \<close>
  The result is what was written to the page, in order, and the exception that ended
  the run, if one was raised (main catches none).
\<close>

datatype written =
    Perplexity pyfloat
  | Burstiness real
  | Analysis_Result string
  | Chart "string list \<times> nat list"
  | Warning

definition text_analysis ::
    "nltk_data \<Rightarrow> string list \<Rightarrow> string \<Rightarrow> written list \<times> py_error option" where
  "text_analysis nl corpus text =
     (if text = [] then ([Warning], None)
      else
        let model = train_model corpus in
        case calculate_perplexity nl text model of
          Inl e \<Rightarrow> ([], Some e)
        | Inr perplexity_value \<Rightarrow>
            let out1 = [Perplexity perplexity_value] in
            case calculate_burstiness nl text of
              Inl e \<Rightarrow> (out1, Some e)
            | Inr burstiness_score \<Rightarrow>
                let out2 = out1 @ [Burstiness burstiness_score] in
                case is_generated_text (PyFloat perplexity_value) (PyFloat (Fin burstiness_score)) of
                  Inl e \<Rightarrow> (out2, Some e)
                | Inr generated_cue \<Rightarrow>
                    let out3 = out2 @ [Analysis_Result generated_cue] in
                    case plot_most_common_words nl text of
                      Inl e \<Rightarrow> (out3, Some e)
                    | Inr chart1 \<Rightarrow>
                        let out4 = out3 @ [Chart chart1] in
                        case plot_repeated_words nl text of
                          Inl e \<Rightarrow> (out4, Some e)
                        | Inr chart2 \<Rightarrow> (out4 @ [Chart chart2], None))"

section \<open>A small environment for concrete runs\<close>

text \<open>
  A tokenizer that splits at spaces, and a four-word stopword list. On lower-case
  words separated by single spaces \<open>nltk.word_tokenize\<close> returns the same tokens.
\<close>

fun split_acc :: "string \<Rightarrow> string \<Rightarrow> string list" where
  "split_acc acc [] = (if acc = [] then [] else [acc])"
| "split_acc acc (c # cs) =
     (if c = CHR '' '' then (if acc = [] then split_acc [] cs else acc # split_acc [] cs)
      else split_acc (acc @ [c]) cs)"

definition space_tokenize :: "string \<Rightarrow> string list" where
  "space_tokenize s = split_acc [] s"

definition toy_nltk :: nltk_data where
  "toy_nltk = \<lparr>word_tokenize = space_tokenize,
               stopwords_english = [''the'', ''is'', ''a'', ''what'']\<rparr>"

section \<open>Reference notions of the specification\<close>

text \<open>
  The distinct items of a list in the order of their first occurrence
  (\<open>remdups\<close> keeps the last occurrence of each item, hence the two reversals).
\<close>

definition first_occurrences :: "'a list \<Rightarrow> 'a list" where
  "first_occurrences xs = rev (remdups (rev xs))"

text \<open>
  The frequency distribution as the specification describes it: each distinct token
  with its number of occurrences, in first-occurrence order.
\<close>

definition distribution :: "string list \<Rightarrow> (string \<times> nat) list" where
  "distribution tokens = map (\<lambda>w. (w, count_list tokens w)) (first_occurrences tokens)"

text \<open>
  The multiset of per-token counts, one count for each distinct token, and the mean
  and population variance over it (the divisor is the number of distinct tokens).
\<close>

definition token_counts :: "string list \<Rightarrow> nat multiset" where
  "token_counts tokens = image_mset (count (mset tokens)) (mset_set (set tokens))"

definition spec_mean :: "nat multiset \<Rightarrow> real" where
  "spec_mean M = (\<Sum>c\<in>#M. real c) / real (size M)"

definition spec_variance :: "nat multiset \<Rightarrow> real" where
  "spec_variance M = (\<Sum>c\<in>#M. (real c - spec_mean M) ^ 2) / real (size M)"

text \<open>
  \<open>S\<close> is the stable sort of \<open>D\<close> by descending count: the same entries,
  counts never increasing, and the entries of every single count in the order they
  have in \<open>D\<close>.
\<close>

definition stable_desc_sort :: "(string \<times> nat) list \<Rightarrow> (string \<times> nat) list \<Rightarrow> bool" where
  "stable_desc_sort D S \<longleftrightarrow>
     mset S = mset D \<and> sorted_wrt (\<lambda>p q. snd q \<le> snd p) S
     \<and> (\<forall>k. [p \<leftarrow> S. snd p = k] = [p \<leftarrow> D. snd p = k])"

text \<open>
  The conditional probabilities the model gives to a sequence of n-grams: for each
  n-gram, the probability of its last word given the words before it.
\<close>

definition ngram_probabilities :: "lang_model \<Rightarrow> string list list \<Rightarrow> real list" where
  "ngram_probabilities m gs = map (\<lambda>g. score m (last g) (butlast g)) gs"

text \<open>A token that consists of punctuation characters only.\<close>

definition punctuation_only :: "string \<Rightarrow> bool" where
  "punctuation_only token \<longleftrightarrow> token \<noteq> [] \<and> set token \<subseteq> set string_punctuation"

text \<open>
  A bigram model for concrete runs: \<open>MLE(2)\<close> fitted on the two sentences
  "x y" and "x z" through \<open>padded_everygram_pipeline(2, ...)\<close>.
\<close>

definition toy_bigram_model :: lang_model where
  "toy_bigram_model =
     (let (train_data, padded_vocab) =
            padded_everygram_pipeline 2 [[''x'', ''y''], [''x'', ''z'']]
      in MLE_fit 2 train_data padded_vocab)"

text \<open>
  A bigram model whose training data contains an empty sentence: \<open>MLE(2)\<close>
  fitted on the sentences "" and "x" through \<open>padded_everygram_pipeline(2, ...)\<close>,
  so that the end of a sentence has been seen right after its start.
\<close>

definition toy_pause_model :: lang_model where
  "toy_pause_model =
     (let (train_data, padded_vocab) = padded_everygram_pipeline 2 [[], [''x'']]
      in MLE_fit 2 train_data padded_vocab)"

text \<open>
  The burstiness of the specification: undefined for the empty distribution, and
  otherwise the population variance of the counts over the square of their mean.
\<close>

datatype 'a statistic = Undefined | Defined 'a

definition spec_burstiness :: "string list \<Rightarrow> real statistic" where
  "spec_burstiness tokens =
     (if distribution tokens = [] then Undefined
      else Defined (spec_variance (token_counts tokens) / (spec_mean (token_counts tokens)) ^ 2))"

text \<open>
  What a run of the code reports as a statistic: a returned float is a defined value,
  and an exception is no report at all; the code has neither a value nor an exception
  of its own that stands for an undefined statistic.
\<close>

fun reported_statistic :: "py_error + real \<Rightarrow> real statistic option" where
  "reported_statistic (Inr v) = Some (Defined v)"
| "reported_statistic (Inl e) = None"

section \<open>The classifier's thresholds\<close>

lemma flt_Fin_Fin: "flt (Fin a) (Fin b) = (a < b)"
  by simp

text \<open>
  Claim C1. For every pair of floats (perplexity, burstiness) the classifier returns
  the label "Likely generated by a language model" exactly when perplexity < 100 and
  burstiness < 1 (as Python compares floats), and the label "Not likely generated by
  a language model" in every other case; for finite values the comparisons are those
  of the real numbers.
\<close>

theorem is_generated_text_thresholds:
  "(is_generated_text (PyFloat p) (PyFloat b) = Inr ''Likely generated by a language model'')
      = (flt p (Fin 100) \<and> flt b (Fin 1))
   \<and> (is_generated_text (PyFloat p) (PyFloat b) = Inr ''Not likely generated by a language model'')
      = (\<not> (flt p (Fin 100) \<and> flt b (Fin 1)))
   \<and> (is_generated_text (PyFloat (Fin x)) (PyFloat (Fin y))
        = Inr ''Likely generated by a language model'') = (x < 100 \<and> y < 1)
   \<and> (is_generated_text (PyFloat (Fin x)) (PyFloat (Fin y))
        = Inr ''Not likely generated by a language model'') = (\<not> (x < 100 \<and> y < 1))"
  by (auto simp add: is_generated_text_def split: bool.splits)

theorem is_generated_text_thresholds_witness:
  "is_generated_text (PyFloat (Fin 50)) (PyFloat (Fin (1 / 2)))
     = Inr ''Likely generated by a language model''
   \<and> is_generated_text (PyFloat (Fin 100)) (PyFloat (Fin (1 / 2)))
     = Inr ''Not likely generated by a language model''"
  using is_generated_text_thresholds [of "Fin 50" "Fin (1 / 2)" 100 "1 / 2"]
  by simp

section \<open>The classifier on undefined arguments\<close>

text \<open>
  Claim C3, as stated, fails: with a perplexity of 200 and an undefined burstiness
  (\<open>None\<close>) the classifier returns a label, and it returns one for a NaN as well.
\<close>

theorem is_generated_text_undefined_counterexample:
  "is_generated_text (PyFloat (Fin 200)) PyNone
     = Inr ''Not likely generated by a language model''
   \<and> is_generated_text (PyFloat NaN) (PyFloat (Fin 0))
     = Inr ''Not likely generated by a language model''"
  by (simp add: is_generated_text_def)

text \<open>
  Claim C3, amended. The classifier has no insufficient-data condition. When the
  perplexity is \<open>None\<close>, or the perplexity is below 100 and the burstiness is
  \<open>None\<close>, the comparison raises TypeError and no label is returned; when the
  perplexity is a float that is not below 100, the label "Not likely generated by a
  language model" is returned without a look at the burstiness, undefined or not. A
  NaN perplexity gives that same label whatever the burstiness is, and a NaN
  burstiness gives it whenever the perplexity is a float.
\<close>

theorem is_generated_text_undefined:
  "is_generated_text PyNone b = Inl TypeError
   \<and> is_generated_text (PyFloat p) PyNone
       = (if flt p (Fin 100) then Inl TypeError
          else Inr ''Not likely generated by a language model'')
   \<and> is_generated_text (PyFloat NaN) b = Inr ''Not likely generated by a language model''
   \<and> is_generated_text (PyFloat p) (PyFloat NaN)
       = Inr ''Not likely generated by a language model''"
  by (cases p) (auto simp add: is_generated_text_def split: bool.splits sum.splits)

theorem is_generated_text_undefined_witness:
  "is_generated_text PyNone PyNone = Inl TypeError
   \<and> is_generated_text (PyFloat (Fin 50)) PyNone = Inl TypeError
   \<and> is_generated_text (PyFloat PInf) PyNone
       = Inr ''Not likely generated by a language model''"
  using is_generated_text_undefined [of PyNone PInf] is_generated_text_undefined [of PyNone "Fin 50"]
  by simp

section \<open>The frequency distribution built by FreqDist\<close>

lemma first_occurrences_snoc:
  "first_occurrences (xs @ [w]) = (if w \<in> set xs then first_occurrences xs else first_occurrences xs @ [w])"
  by (simp add: first_occurrences_def)

lemma set_first_occurrences [simp]: "set (first_occurrences xs) = set xs"
  by (simp add: first_occurrences_def)

lemma distinct_first_occurrences [simp]: "distinct (first_occurrences xs)"
  by (simp add: first_occurrences_def)

lemma first_occurrences_Nil_iff [simp]: "first_occurrences xs = [] \<longleftrightarrow> xs = []"
  by (simp add: first_occurrences_def)

lemma freq_inc_map:
  "distinct ks \<Longrightarrow>
   freq_inc w (map (\<lambda>k. (k, f k)) ks) =
     (if w \<in> set ks then map (\<lambda>k. (k, if k = w then f k + 1 else f k)) ks
      else map (\<lambda>k. (k, f k)) ks @ [(w, 1)])"
  by (induction ks) auto

lemma FreqDist_snoc: "FreqDist (xs @ [w]) = freq_inc w (FreqDist xs)"
  by (simp add: FreqDist_def)

lemma FreqDist_distribution: "FreqDist tokens = distribution tokens"
proof (induction tokens rule: rev_induct)
  case Nil
  show ?case by (simp add: FreqDist_def distribution_def first_occurrences_def)
next
  case (snoc w xs)
  have "FreqDist (xs @ [w]) = freq_inc w (map (\<lambda>k. (k, count_list xs k)) (first_occurrences xs))"
    using snoc by (simp add: FreqDist_snoc distribution_def)
  also have "\<dots> = distribution (xs @ [w])"
    by (auto simp add: freq_inc_map distribution_def first_occurrences_snoc count_list_0_iff)
  finally show ?case .
qed

lemma map_snd_distribution:
  "map snd (distribution tokens) = map (count_list tokens) (first_occurrences tokens)"
  by (simp add: distribution_def comp_def)

lemma mset_counts: "mset (map snd (distribution tokens)) = token_counts tokens"
proof -
  have "mset (first_occurrences tokens) = mset_set (set tokens)"
    using mset_set_set [of "first_occurrences tokens"] by simp
  moreover have "count (mset tokens) = count_list tokens"
    by (rule ext) (simp add: count_mset)
  ultimately show ?thesis
    by (simp add: map_snd_distribution token_counts_def)
qed

lemma size_token_counts: "size (token_counts tokens) = length (distribution tokens)"
  using arg_cong [OF mset_counts, of size tokens] by simp

lemma sum_list_as_mset:
  "sum_list (map g (map snd (distribution tokens))) = (\<Sum>c\<in>#token_counts tokens. g c)"
proof -
  have "sum_list (map g (map snd (distribution tokens)))
          = sum_mset (mset (map g (map snd (distribution tokens))))"
    by (simp only: sum_mset_sum_list)
  also have "\<dots> = (\<Sum>c\<in>#mset (map snd (distribution tokens)). g c)"
    by (simp only: mset_map)
  finally show ?thesis by (simp only: mset_counts)
qed

lemma counts_positive: "c \<in> set (map snd (distribution tokens)) \<Longrightarrow> 1 \<le> c"
proof -
  assume "c \<in> set (map snd (distribution tokens))"
  then obtain w where w: "w \<in> set tokens" "c = count_list tokens w"
    by (auto simp add: distribution_def)
  then have "c \<noteq> 0"
    by (simp add: count_list_0_iff)
  then show ?thesis by simp
qed

lemma length_le_sum_list:
  fixes xs :: "nat list"
  shows "(\<And>c. c \<in> set xs \<Longrightarrow> 1 \<le> c) \<Longrightarrow> length xs \<le> sum_list xs"
proof (induction xs)
  case Nil
  show ?case by simp
next
  case (Cons x xs)
  have "1 \<le> x" using Cons.prems [of x] by simp
  moreover have "length xs \<le> sum_list xs"
    using Cons.IH Cons.prems by simp
  ultimately show ?case by simp
qed

lemma sum_counts_ge: "length (distribution tokens) \<le> sum_list (map snd (distribution tokens))"
  using length_le_sum_list [of "map snd (distribution tokens)", OF counts_positive]
  by simp

section \<open>Burstiness against the specification's formula\<close>

lemma calculate_burstiness_eq:
  "calculate_burstiness nl text =
     (if preprocess_text nl text = [] then Inl ZeroDivisionError
      else Inr (spec_variance (token_counts (preprocess_text nl text))
                / (spec_mean (token_counts (preprocess_text nl text))) ^ 2))"
proof (cases "preprocess_text nl text = []")
  case True
  then show ?thesis
    by (simp add: calculate_burstiness_def FreqDist_def)
next
  case False
  define tokens where "tokens = preprocess_text nl text"
  define vals where "vals = map snd (distribution tokens)"
  have len: "length (distribution tokens) \<noteq> 0"
    using False by (simp add: distribution_def tokens_def)
  have mean: "real (sum_list vals) / real (length (distribution tokens)) = spec_mean (token_counts tokens)"
  proof -
    have "real (sum_list vals) = sum_list (map real vals)"
      by (simp only: sum_list_of_nat)
    also have "\<dots> = (\<Sum>c\<in>#token_counts tokens. real c)"
      unfolding vals_def by (rule sum_list_as_mset)
    finally show ?thesis
      by (simp only: spec_mean_def size_token_counts)
  qed
  have var: "(\<Sum>freq\<leftarrow>vals. (real freq - spec_mean (token_counts tokens)) ^ 2)
               / real (length (distribution tokens)) = spec_variance (token_counts tokens)"
    unfolding vals_def spec_variance_def size_token_counts
    by (simp only: sum_list_as_mset)
  have lpos: "0 < length (distribution tokens)" using len by simp
  then have spos: "0 < sum_list vals"
    using sum_counts_ge [of tokens] unfolding vals_def by linarith
  have "0 < real (sum_list vals) / real (length (distribution tokens))"
    by (rule divide_pos_pos) (use lpos spos in \<open>simp_all only: of_nat_0_less_iff\<close>)
  then have pos: "spec_mean (token_counts tokens) \<noteq> 0"
    by (simp only: mean)
  have sq: "(spec_mean (token_counts tokens))\<^sup>2 \<noteq> 0"
    using pos by simp
  have "calculate_burstiness nl text =
          (if length (distribution tokens) = 0 then Inl ZeroDivisionError
           else if (real (sum_list vals) / real (length (distribution tokens)))\<^sup>2 = 0
                then Inl ZeroDivisionError
                else Inr ((\<Sum>freq\<leftarrow>vals. (real freq
                             - real (sum_list vals) / real (length (distribution tokens)))\<^sup>2)
                          / real (length (distribution tokens))
                          / (real (sum_list vals) / real (length (distribution tokens)))\<^sup>2))"
    unfolding calculate_burstiness_def Let_def FreqDist_distribution tokens_def vals_def ..
  also have "\<dots> = Inr (spec_variance (token_counts tokens) / (spec_mean (token_counts tokens))\<^sup>2)"
    unfolding mean var using len sq by (simp only: if_False)
  finally show ?thesis
    using False by (simp only: tokens_def if_False)
qed

section \<open>Concrete runs of the preprocessor\<close>

lemma toy_tokens_the: "preprocess_text toy_nltk ''the'' = []"
  by code_simp

lemma toy_tokens_xxy: "preprocess_text toy_nltk ''x x y'' = [''x'', ''x'', ''y'']"
  by code_simp

text \<open>
  Claim C4, as stated, fails in its second half: the text "the" has an empty
  frequency distribution, for which the specification has the burstiness reported as
  undefined, and the code reports nothing: the division by the number of distinct
  tokens raises ZeroDivisionError.
\<close>

theorem calculate_burstiness_spec_counterexample:
  "spec_burstiness (preprocess_text toy_nltk ''the'') = Undefined
   \<and> calculate_burstiness toy_nltk ''the'' = Inl ZeroDivisionError
   \<and> reported_statistic (calculate_burstiness toy_nltk ''the'')
        \<noteq> Some (spec_burstiness (preprocess_text toy_nltk ''the''))"
  by (simp add: spec_burstiness_def calculate_burstiness_eq toy_tokens_the distribution_def)

text \<open>
  Claim C4, amended. For every text with a non-empty frequency distribution the
  burstiness score is variance(counts) / mean(counts)^2, where mean and variance are
  taken over the multiset of the per-token counts and the variance is the population
  variance (its divisor is the number of distinct tokens). For the empty distribution
  no score is returned, zero or other, and nothing is reported as undefined: the
  division by the number of distinct tokens raises ZeroDivisionError.
\<close>

theorem calculate_burstiness_spec:
  "calculate_burstiness nl text =
     (if FreqDist (preprocess_text nl text) = [] then Inl ZeroDivisionError
      else Inr (spec_variance (token_counts (preprocess_text nl text))
                / (spec_mean (token_counts (preprocess_text nl text))) ^ 2))"
  by (simp add: calculate_burstiness_eq FreqDist_distribution distribution_def)

theorem calculate_burstiness_spec_witness:
  "calculate_burstiness toy_nltk ''the'' = Inl ZeroDivisionError
   \<and> calculate_burstiness toy_nltk ''x x y'' = Inr (1 / 9)"
proof -
  have fd: "FreqDist [''x'', ''x'', ''y''] = [(''x'', 2), (''y'', 1)]"
    by code_simp
  have tc: "token_counts [''x'', ''x'', ''y''] = {#2, 1#}"
    using mset_counts [of "[''x'', ''x'', ''y'']"] by (simp add: fd flip: FreqDist_distribution)
  have m: "spec_mean {#2, 1#} = 3 / 2"
    by (simp add: spec_mean_def)
  have v: "spec_variance {#2, 1#} = 1 / 4"
    unfolding spec_variance_def m by (simp add: power2_eq_square)
  have ratio: "spec_variance {#2, 1#} / (spec_mean {#2, 1#})\<^sup>2 = 1 / 9"
    unfolding m v by (simp add: power2_eq_square)
  have "calculate_burstiness toy_nltk ''x x y''
          = Inr (spec_variance {#2, 1#} / (spec_mean {#2, 1#})\<^sup>2)"
    using calculate_burstiness_spec [of toy_nltk "''x x y''"]
    unfolding toy_tokens_xxy fd tc by simp
  then have full: "calculate_burstiness toy_nltk ''x x y'' = Inr (1 / 9)"
    by (simp only: ratio)
  have "calculate_burstiness toy_nltk ''the'' = Inl ZeroDivisionError"
    using calculate_burstiness_spec [of toy_nltk "''the''"]
    unfolding toy_tokens_the by (simp add: FreqDist_def)
  then show ?thesis
    using full by (rule conjI)
qed

section \<open>The repeated words\<close>

lemma repeated_comprehension:
  "[word. (word, cnt) \<leftarrow> fd, 1 < cnt] = map fst [p \<leftarrow> fd. 1 < snd p]"
  by (induction fd) auto

lemma fd_get_distribution:
  "w \<in> set tokens \<Longrightarrow> fd_get (distribution tokens) w = count_list tokens w"
proof -
  assume w: "w \<in> set tokens"
  have "\<And>ks. w \<in> set ks \<Longrightarrow> map_of (map (\<lambda>k. (k, count_list tokens k)) ks) w = Some (count_list tokens w)"
  proof -
    fix ks :: "string list"
    show "w \<in> set ks \<Longrightarrow> map_of (map (\<lambda>k. (k, count_list tokens k)) ks) w = Some (count_list tokens w)"
      by (induction ks) auto
  qed
  from this [of "first_occurrences tokens"] w show ?thesis
    by (simp add: fd_get_def distribution_def)
qed

lemma repeated_words_eq:
  "repeated_words nl text = map fst (take 10 [p \<leftarrow> distribution (preprocess_text nl text). 1 < snd p])"
  unfolding repeated_words_def Let_def FreqDist_distribution repeated_comprehension
  by (simp only: take_map)

lemma repeated_pairs_eq:
  "repeated_pairs nl text = take 10 [p \<leftarrow> distribution (preprocess_text nl text). 1 < snd p]"
proof -
  define tokens where "tokens = preprocess_text nl text"
  define R where "R = take 10 [p \<leftarrow> distribution tokens. 1 < snd p]"
  have sub: "set R \<subseteq> set (distribution tokens)"
    unfolding R_def using set_take_subset [of 10 "[p \<leftarrow> distribution tokens. 1 < snd p]"] by auto
  have "map (\<lambda>p. (fst p, fd_get (distribution tokens) (fst p))) R = map (\<lambda>p. p) R"
  proof (rule map_cong [OF refl])
    fix p assume "p \<in> set R"
    then have "p \<in> set (distribution tokens)" using sub by blast
    then obtain w where "w \<in> set tokens" "p = (w, count_list tokens w)"
      by (auto simp add: distribution_def)
    then show "(fst p, fd_get (distribution tokens) (fst p)) = p"
      by (simp add: fd_get_distribution)
  qed
  moreover have "repeated_pairs nl text
                   = map (\<lambda>p. (fst p, fd_get (distribution tokens) (fst p))) R"
    unfolding repeated_pairs_def Let_def repeated_words_eq FreqDist_distribution
      R_def tokens_def map_map comp_def ..
  ultimately show ?thesis
    by (simp add: R_def tokens_def)
qed

lemma toy_tokens_test: "preprocess_text toy_nltk ''test test test test'' = [''test'', ''test'', ''test'', ''test'']"
  by code_simp

lemma toy_tokens_one_two: "preprocess_text toy_nltk ''one two'' = [''one'', ''two'']"
  by code_simp

lemma distribution_test4:
  "distribution [''test'', ''test'', ''test'', ''test''] = [(''test'', 4)]"
proof -
  have "FreqDist [''test'', ''test'', ''test'', ''test''] = [(''test'', 4)]"
    by code_simp
  then show ?thesis by (simp only: FreqDist_distribution)
qed

text \<open>
  Claim C8. For every text, the repeated words are exactly the entries of the
  frequency distribution (each distinct token with its count, in first-occurrence
  order, which is the distribution's iteration order) whose count is greater than 1,
  cut after the first 10, each paired with its count; a text whose tokens are one word
  four times ("test test test test") gives the single entry of count 4, and that
  entry is what the chart shows.
\<close>

theorem repeated_words_spec:
  "repeated_pairs nl text = take 10 [p \<leftarrow> distribution (preprocess_text nl text). 1 < snd p]
   \<and> repeated_words nl text = map fst (repeated_pairs nl text)
   \<and> (preprocess_text nl text = [''test'', ''test'', ''test'', ''test'']
        \<longrightarrow> repeated_pairs nl text = [(''test'', 4)]
            \<and> plot_repeated_words nl text = Inr ([''test''], [4]))"
proof (intro conjI impI)
  show "repeated_pairs nl text = take 10 [p \<leftarrow> distribution (preprocess_text nl text). 1 < snd p]"
    by (rule repeated_pairs_eq)
  show "repeated_words nl text = map fst (repeated_pairs nl text)"
    by (simp only: repeated_pairs_eq repeated_words_eq)
next
  assume t: "preprocess_text nl text = [''test'', ''test'', ''test'', ''test'']"
  show r: "repeated_pairs nl text = [(''test'', 4)]"
    unfolding repeated_pairs_eq t distribution_test4 by simp
  show "plot_repeated_words nl text = Inr ([''test''], [4])"
    unfolding plot_repeated_words_def r by (simp add: unpack_zip_def)
qed

theorem repeated_words_spec_witness:
  "preprocess_text toy_nltk ''test test test test'' = [''test'', ''test'', ''test'', ''test'']
   \<and> repeated_pairs toy_nltk ''test test test test'' = [(''test'', 4)]
   \<and> plot_repeated_words toy_nltk ''test test test test'' = Inr ([''test''], [4])"
  using repeated_words_spec [of toy_nltk "''test test test test''"] toy_tokens_test
  by blast

section \<open>Unpacking an empty zip\<close>

lemma repeated_pairs_Nil_iff:
  "repeated_pairs nl text = [] \<longleftrightarrow> \<not> (\<exists>w. 1 < count_list (preprocess_text nl text) w)"
proof -
  define tokens where "tokens = preprocess_text nl text"
  have "repeated_pairs nl text = [] \<longleftrightarrow> [p \<leftarrow> distribution tokens. 1 < snd p] = []"
    unfolding repeated_pairs_eq tokens_def by (simp only: take_eq_Nil) simp
  also have "\<dots> \<longleftrightarrow> (\<forall>w \<in> set tokens. \<not> 1 < count_list tokens w)"
    by (auto simp add: filter_empty_conv distribution_def)
  also have "\<dots> \<longleftrightarrow> \<not> (\<exists>w. 1 < count_list tokens w)"
  proof -
    have "\<And>w. 1 < count_list tokens w \<Longrightarrow> w \<in> set tokens"
    proof (rule ccontr)
      fix w assume "1 < count_list tokens w" "w \<notin> set tokens"
      then show False by (simp add: count_list_0_iff [THEN iffD2])
    qed
    then show ?thesis by blast
  qed
  finally show ?thesis by (simp only: tokens_def)
qed

lemma unpack_zip_error_iff: "unpack_zip ps = Inl ValueError \<longleftrightarrow> ps = []"
  by (cases ps) (simp_all add: unpack_zip_def)

lemma most_common_Nil_iff: "most_common 10 fd = [] \<longleftrightarrow> fd = []"
proof -
  have "sort_key (\<lambda>(w, c). - int c) fd = [] \<longleftrightarrow> fd = []"
    using length_sort [of "\<lambda>(w, c). - int c" fd] by (metis length_0_conv)
  then show ?thesis
    by (simp add: most_common_def)
qed

lemma distribution_Nil_iff: "distribution tokens = [] \<longleftrightarrow> tokens = []"
  by (simp add: distribution_def)

text \<open>
  Claim C10. \<open>plot_repeated_words\<close> raises the unpacking error (ValueError, from
  unpacking an empty \<open>zip\<close>) exactly when no token of the preprocessed text has a
  count greater than 1, so no empty chart is ever drawn; \<open>plot_most_common_words\<close>
  raises the same error exactly when the preprocessed token sequence is empty.
\<close>

theorem plot_unpacking_error:
  "(plot_repeated_words nl text = Inl ValueError)
      = (\<not> (\<exists>w. 1 < count_list (preprocess_text nl text) w))
   \<and> (plot_most_common_words nl text = Inl ValueError) = (preprocess_text nl text = [])"
proof (rule conjI)
  show "(plot_repeated_words nl text = Inl ValueError)
          = (\<not> (\<exists>w. 1 < count_list (preprocess_text nl text) w))"
    unfolding plot_repeated_words_def unpack_zip_error_iff by (rule repeated_pairs_Nil_iff)
  show "(plot_most_common_words nl text = Inl ValueError) = (preprocess_text nl text = [])"
    unfolding plot_most_common_words_def Let_def unpack_zip_error_iff most_common_Nil_iff
      FreqDist_distribution by (rule distribution_Nil_iff)
qed

theorem plot_unpacking_error_witness:
  "plot_repeated_words toy_nltk ''one two'' = Inl ValueError
   \<and> plot_most_common_words toy_nltk ''the'' = Inl ValueError
   \<and> plot_most_common_words toy_nltk ''one two'' = Inr ([''one'', ''two''], [1, 1])"
proof -
  have "\<not> (\<exists>w. 1 < count_list [''one'', ''two''] w)"
    by simp
  then have "plot_repeated_words toy_nltk ''one two'' = Inl ValueError"
    using plot_unpacking_error [of toy_nltk "''one two''"] by (simp add: toy_tokens_one_two)
  moreover have "plot_most_common_words toy_nltk ''the'' = Inl ValueError"
    using plot_unpacking_error [of toy_nltk "''the''"] by (simp add: toy_tokens_the)
  moreover have "plot_most_common_words toy_nltk ''one two'' = Inr ([''one'', ''two''], [1, 1])"
    by code_simp
  ultimately show ?thesis by simp
qed

section \<open>The most common words\<close>

lemma stable_desc_sort_sort_key:
  "stable_desc_sort D (sort_key (\<lambda>(w, c). - int c) D)"
proof -
  define f :: "string \<times> nat \<Rightarrow> int" where "f = (\<lambda>(w, c). - int c)"
  have le: "\<And>p q. (f p \<le> f q) = (snd q \<le> snd p)"
    by (simp add: f_def split_beta)
  have eq: "\<And>p k. (f p = - int k) = (snd p = k)"
    by (simp add: f_def split_beta)
  have "sorted (map f (sort_key f D))"
    by (rule sorted_sort_key)
  then have s: "sorted_wrt (\<lambda>p q. snd q \<le> snd p) (sort_key f D)"
    by (simp only: sorted_map le)
  have st: "\<And>k. [p \<leftarrow> sort_key f D. snd p = k] = [p \<leftarrow> D. snd p = k]"
  proof -
    fix k show "[p \<leftarrow> sort_key f D. snd p = k] = [p \<leftarrow> D. snd p = k]"
      using sort_key_stable [of f "- int k" D] by (simp only: eq)
  qed
  show ?thesis
    unfolding stable_desc_sort_def using s st by (simp add: f_def)
qed

lemma stable_desc_sort_unique:
  assumes "stable_desc_sort D S"
  shows "S = sort_key (\<lambda>(w, c). - int c) D"
proof -
  define f :: "string \<times> nat \<Rightarrow> int" where "f = (\<lambda>(w, c). - int c)"
  have le: "\<And>p q. (f p \<le> f q) = (snd q \<le> snd p)"
    by (simp add: f_def split_beta)
  have eq: "\<And>p q. (f p = f q) = (snd q = snd p)"
    by (auto simp add: f_def split_beta)
  have m: "mset S = mset D" and s: "sorted_wrt (\<lambda>p q. snd q \<le> snd p) S"
    and st: "\<And>k. [p \<leftarrow> S. snd p = k] = [p \<leftarrow> D. snd p = k]"
    using assms by (simp_all add: stable_desc_sort_def)
  have "sort_key f D = S"
  proof (rule properties_for_sort_key)
    show "mset S = mset D" by (rule m)
    show "sorted (map f S)" using s by (simp only: sorted_map le)
    fix k assume "k \<in> set S"
    show "filter (\<lambda>x. f k = f x) S = filter (\<lambda>x. f k = f x) D"
      using st [of "snd k"] by (simp only: eq)
  qed
  then show ?thesis by (simp add: f_def)
qed

lemma length_distribution: "length (distribution tokens) = card (set tokens)"
  using distinct_card [of "first_occurrences tokens"] by (simp add: distribution_def)

lemma toy_tokens_ties:
  "preprocess_text toy_nltk ''b x c c x d'' = [''b'', ''x'', ''c'', ''c'', ''x'', ''d'']"
  by code_simp

text \<open>
  Claim C7. For every text, the top words are the first 10 entries (all of them when
  the text has fewer than 10 distinct tokens) of the stable sort by descending count
  of the frequency distribution, whose entries stand in the order of the tokens'
  first occurrences: highest counts first, equal counts in first-occurrence order.
  That sort exists and is unique. The chart drawn for a text with at least one token
  shows exactly these entries.
\<close>

theorem most_common_words_spec:
  "(\<exists>S. stable_desc_sort (distribution (preprocess_text nl text)) S)
   \<and> (\<forall>S. stable_desc_sort (distribution (preprocess_text nl text)) S
          \<longrightarrow> most_common 10 (FreqDist (preprocess_text nl text)) = take 10 S)
   \<and> length (most_common 10 (FreqDist (preprocess_text nl text)))
        = min 10 (card (set (preprocess_text nl text)))
   \<and> plot_most_common_words nl text
        = (if preprocess_text nl text = [] then Inl ValueError
           else Inr (map fst (most_common 10 (FreqDist (preprocess_text nl text))),
                     map snd (most_common 10 (FreqDist (preprocess_text nl text)))))"
proof (intro conjI allI impI)
  show "\<exists>S. stable_desc_sort (distribution (preprocess_text nl text)) S"
    using stable_desc_sort_sort_key [of "distribution (preprocess_text nl text)"] by blast
next
  fix S assume "stable_desc_sort (distribution (preprocess_text nl text)) S"
  then have "S = sort_key (\<lambda>(w, c). - int c) (distribution (preprocess_text nl text))"
    by (rule stable_desc_sort_unique)
  then show "most_common 10 (FreqDist (preprocess_text nl text)) = take 10 S"
    by (simp only: most_common_def FreqDist_distribution)
next
  show "length (most_common 10 (FreqDist (preprocess_text nl text)))
          = min 10 (card (set (preprocess_text nl text)))"
    by (simp add: most_common_def FreqDist_distribution length_distribution min.commute)
  show "plot_most_common_words nl text
          = (if preprocess_text nl text = [] then Inl ValueError
             else Inr (map fst (most_common 10 (FreqDist (preprocess_text nl text))),
                       map snd (most_common 10 (FreqDist (preprocess_text nl text)))))"
  proof (cases "preprocess_text nl text = []")
    case True
    then show ?thesis
      by (simp add: plot_most_common_words_def FreqDist_def most_common_def unpack_zip_def)
  next
    case False
    then have "most_common 10 (FreqDist (preprocess_text nl text)) \<noteq> []"
      by (simp add: most_common_Nil_iff FreqDist_distribution distribution_Nil_iff)
    then show ?thesis
      using False by (simp add: plot_most_common_words_def unpack_zip_def Let_def split: list.splits)
  qed
qed

theorem most_common_words_spec_witness:
  "stable_desc_sort (distribution [''b'', ''x'', ''c'', ''c'', ''x'', ''d''])
      [(''x'', 2), (''c'', 2), (''b'', 1), (''d'', 1)]
   \<and> most_common 10 (FreqDist (preprocess_text toy_nltk ''b x c c x d''))
        = [(''x'', 2), (''c'', 2), (''b'', 1), (''d'', 1)]
   \<and> plot_most_common_words toy_nltk ''b x c c x d''
        = Inr ([''x'', ''c'', ''b'', ''d''], [2, 2, 1, 1])"
proof -
  have "FreqDist [''b'', ''x'', ''c'', ''c'', ''x'', ''d'']
          = [(''b'', 1), (''x'', 2), (''c'', 2), (''d'', 1)]"
    by code_simp
  then have d: "distribution [''b'', ''x'', ''c'', ''c'', ''x'', ''d'']
                  = [(''b'', 1), (''x'', 2), (''c'', 2), (''d'', 1)]"
    by (simp only: FreqDist_distribution)
  have s: "stable_desc_sort (distribution [''b'', ''x'', ''c'', ''c'', ''x'', ''d''])
             [(''x'', 2), (''c'', 2), (''b'', 1), (''d'', 1)]"
    unfolding d stable_desc_sort_def by auto
  note t = most_common_words_spec [of toy_nltk "''b x c c x d''", unfolded toy_tokens_ties]
  have a: "most_common 10 (FreqDist [''b'', ''x'', ''c'', ''c'', ''x'', ''d''])
             = [(''x'', 2), (''c'', 2), (''b'', 1), (''d'', 1)]"
    using t s by simp
  have b: "plot_most_common_words toy_nltk ''b x c c x d''
             = Inr ([''x'', ''c'', ''b'', ''d''], [2, 2, 1, 1])"
    using t unfolding a by simp
  show ?thesis
    using s a b unfolding toy_tokens_ties by (intro conjI)
qed

section \<open>Sums of log scores and the geometric mean\<close>

lemma log_base2_zero: "log_base2 0 = NInf"
  by (simp add: log_base2_def)

lemma log_base2_nonzero: "p \<noteq> 0 \<Longrightarrow> log_base2 p = Fin (log 2 p)"
  by (simp add: log_base2_def)

lemma fsum_NInf: "foldl fadd NInf (map log_base2 ps) = NInf"
proof (induction ps)
  case Nil
  show ?case by simp
next
  case (Cons p ps)
  then show ?case by (cases "p = 0") (simp_all add: log_base2_zero log_base2_nonzero)
qed

lemma fsum_finite:
  "(\<And>p. p \<in> set ps \<Longrightarrow> p \<noteq> 0) \<Longrightarrow>
   foldl fadd (Fin a) (map log_base2 ps) = Fin (a + (\<Sum>p\<leftarrow>ps. log 2 p))"
proof (induction ps arbitrary: a)
  case Nil
  show ?case by simp
next
  case (Cons p ps)
  have "p \<noteq> 0" using Cons.prems [of p] by simp
  moreover have "foldl fadd (Fin (a + log 2 p)) (map log_base2 ps)
                   = Fin (a + log 2 p + (\<Sum>p\<leftarrow>ps. log 2 p))"
    using Cons.IH [of "a + log 2 p"] Cons.prems by simp
  ultimately show ?case by (simp add: log_base2_nonzero add.assoc)
qed

lemma fsum_zero:
  "0 \<in> set ps \<Longrightarrow> foldl fadd (Fin a) (map log_base2 ps) = NInf"
proof (induction ps arbitrary: a)
  case Nil
  then show ?case by simp
next
  case (Cons p ps)
  show ?case
  proof (cases "p = 0")
    case True
    then show ?thesis by (simp add: log_base2_zero fsum_NInf)
  next
    case False
    then have "0 \<in> set ps" using Cons.prems by simp
    then have "foldl fadd (Fin (a + log 2 p)) (map log_base2 ps) = NInf"
      by (rule Cons.IH)
    then show ?thesis using False by (simp add: log_base2_nonzero)
  qed
qed

lemma log_prod_list:
  "(\<And>p. p \<in> set ps \<Longrightarrow> 0 < p) \<Longrightarrow>
   0 < prod_list ps \<and> log 2 (prod_list ps) = (\<Sum>p\<leftarrow>ps. log 2 p)"
proof (induction ps)
  case Nil
  show ?case by simp
next
  case (Cons p ps)
  have p: "0 < p" using Cons.prems [of p] by simp
  have ih: "0 < prod_list ps \<and> log 2 (prod_list ps) = (\<Sum>p\<leftarrow>ps. log 2 p)"
    using Cons.IH Cons.prems by simp
  have "log 2 (p * prod_list ps) = log 2 p + log 2 (prod_list ps)"
    using p ih by (simp add: log_mult)
  then show ?case using p ih by simp
qed

lemma geometric_mean_inverse:
  assumes "\<And>p. p \<in> set ps \<Longrightarrow> 0 < p"
  shows "2 powr (- ((\<Sum>p\<leftarrow>ps. log 2 p) / real n)) = prod_list ps powr (- 1 / real n)"
proof -
  have pos: "0 < prod_list ps" and lg: "log 2 (prod_list ps) = (\<Sum>p\<leftarrow>ps. log 2 p)"
    using log_prod_list [of ps] assms by simp_all
  have "prod_list ps powr (- 1 / real n) = (2 powr log 2 (prod_list ps)) powr (- 1 / real n)"
    using pos by simp
  also have "\<dots> = 2 powr (log 2 (prod_list ps) * (- 1 / real n))"
    by (simp only: powr_powr)
  also have "\<dots> = 2 powr (- ((\<Sum>p\<leftarrow>ps. log 2 p) / real n))"
    by (simp add: lg)
  finally show ?thesis by simp
qed

lemma freq_bounds: "0 \<le> freq samples w \<and> freq samples w \<le> 1"
proof (cases "length samples = 0")
  case True
  then show ?thesis by (simp add: freq_def)
next
  case False
  have "count_list samples w \<le> length samples"
    by (rule count_le_length)
  then have "real (count_list samples w) \<le> real (length samples)"
    by simp
  then show ?thesis using False by (simp add: freq_def)
qed

lemma score_nonneg: "0 \<le> score m w ctx"
  by (simp add: score_def freq_bounds)

lemma prod_list_zero_iff:
  fixes ps :: "real list"
  shows "prod_list ps = 0 \<longleftrightarrow> 0 \<in> set ps"
  by (induction ps) auto

section \<open>Perplexity of a sequence of n-grams\<close>

lemma logscores_eq:
  "[logscore m (last ngram) (butlast ngram). ngram \<leftarrow> gs] = map log_base2 (ngram_probabilities m gs)"
  by (simp add: ngram_probabilities_def logscore_def comp_def)

lemma probabilities_nonneg: "p \<in> set (ngram_probabilities m gs) \<Longrightarrow> 0 \<le> p"
  by (auto simp add: ngram_probabilities_def score_nonneg)

lemma perplexity_cases:
  "perplexity m gs =
     (if gs = [] then Inl ZeroDivisionError
      else if prod_list (ngram_probabilities m gs) = 0 then Inr PInf
      else Inr (Fin (prod_list (ngram_probabilities m gs) powr (- 1 / real (length gs)))))"
proof (cases gs)
  case Nil
  then show ?thesis
    by (simp add: perplexity_def entropy_def mean_items_def)
next
  case (Cons g gs')
  define ps where "ps = ngram_probabilities m gs"
  have len: "length ps = Suc (length gs')"
    by (simp add: ps_def ngram_probabilities_def Cons)
  have lgs: "length gs = Suc (length gs')"
    by (simp add: Cons)
  show ?thesis
  proof (cases "prod_list ps = 0")
    case True
    then have "0 \<in> set ps" by (simp only: prod_list_zero_iff)
    then have "foldl fadd (Fin 0) (map log_base2 ps) = NInf"
      by (rule fsum_zero)
    then have "perplexity m gs = Inr PInf"
      unfolding perplexity_def entropy_def mean_items_def logscores_eq
      by (simp add: len flip: ps_def)
    then show ?thesis using True Cons by (simp add: ps_def)
  next
    case False
    then have nz: "\<And>p. p \<in> set ps \<Longrightarrow> p \<noteq> 0"
      using prod_list_zero_iff [of ps] by auto
    then have pos: "\<And>p. p \<in> set ps \<Longrightarrow> 0 < p"
      using probabilities_nonneg [of _ m gs] unfolding ps_def by fastforce
    have "foldl fadd (Fin 0) (map log_base2 ps) = Fin (0 + (\<Sum>p\<leftarrow>ps. log 2 p))"
      using nz by (rule fsum_finite)
    then have "perplexity m gs = Inr (Fin (2 powr (- ((\<Sum>p\<leftarrow>ps. log 2 p) / real (length gs)))))"
      unfolding perplexity_def entropy_def mean_items_def logscores_eq
      by (simp add: len lgs flip: ps_def)
    also have "\<dots> = Inr (Fin (prod_list ps powr (- 1 / real (length gs))))"
      using geometric_mean_inverse [of ps "length gs"] pos by simp
    finally show ?thesis using False Cons by (simp add: ps_def)
  qed
qed

lemma calculate_perplexity_eq:
  "calculate_perplexity nl text m
     = perplexity m (ngrams (''<s>'' # preprocess_text nl text @ [''</s>'']) (order m))"
  by (simp add: calculate_perplexity_def)

lemma ngrams_one: "ngrams xs 1 = map (\<lambda>x. [x]) xs"
proof -
  have "map (\<lambda>i. take 1 (drop i xs)) [0 ..< length xs] = map (\<lambda>i. [xs ! i]) [0 ..< length xs]"
  proof (rule map_cong [OF refl])
    fix i assume "i \<in> set [0 ..< length xs]"
    then have "i < length xs" by simp
    then have "drop i xs = xs ! i # drop (Suc i) xs"
      by (simp add: Cons_nth_drop_Suc)
    then show "take 1 (drop i xs) = [xs ! i]" by simp
  qed
  also have "\<dots> = map (\<lambda>x. [x]) (map (\<lambda>i. xs ! i) [0 ..< length xs])"
    by (simp add: comp_def)
  also have "\<dots> = map (\<lambda>x. [x]) xs"
    by (simp only: map_nth)
  finally show ?thesis by (simp add: ngrams_def)
qed

lemma length_ngrams: "length (ngrams xs n) = (if n = 0 then 0 else Suc (length xs) - n)"
  by (simp add: ngrams_def)

lemma ngrams_nth:
  "i < length (ngrams xs n) \<Longrightarrow> ngrams xs n ! i = take n (drop i xs)"
  by (auto simp add: ngrams_def split: if_splits)

lemma ngrams_Nil_iff: "ngrams xs n = [] \<longleftrightarrow> n = 0 \<or> length xs < n"
  using length_ngrams [of xs n] by (auto simp add: length_0_conv [symmetric] simp del: length_0_conv)

section \<open>The model trained in main\<close>

text \<open>
  main hands \<open>brown.words()\<close>, a flat list of words, to
  \<open>padded_everygram_pipeline\<close>, which expects a list of sentences: every word is
  read as a sentence of characters, and the vocabulary of the fitted model holds
  single characters only. At order 1 the pipeline adds no padding either, so the
  symbol \<open><s>\<close> that \<open>calculate_perplexity\<close> puts in front of every text is
  unknown to the model. Both are defects of main, not properties of the perplexity
  computation; their consequences are collected in this section: the perplexity that
  main computes is +infinity for every text, the label "Likely generated by a language
  model" is never written, and a text without tokens ends the run in an unhandled
  ZeroDivisionError after the perplexity has been written.
\<close>

lemma ngrams_Suc_0: "ngrams xs (Suc 0) = map (\<lambda>x. [x]) xs"
  using ngrams_one [of xs] by simp

lemma everygrams_Suc_0: "everygrams xs (Suc 0) = map (\<lambda>x. [x]) xs"
  by (simp add: everygrams_def ngrams_Suc_0)

lemma pad_both_ends_Suc_0: "pad_both_ends sent (Suc 0) = sent"
  by (simp add: pad_both_ends_def)

lemma train_model_eq:
  "train_model tokens =
     \<lparr>order = 1,
      vocab_counts = concat (map chars_of tokens),
      ngram_counts = map (map (vocab_lookup (concat (map chars_of tokens))))
                       (concat (map (\<lambda>sent. map (\<lambda>x. [x]) sent) (map chars_of tokens)))\<rparr>"
  by (simp add: train_model_def padded_everygram_pipeline_def MLE_fit_def
      everygrams_Suc_0 pad_both_ends_Suc_0 comp_def)

lemma order_train_model: "order (train_model tokens) = 1"
  by (simp add: train_model_eq)

lemma vocab_train_model_length:
  "w \<in> set (vocab_counts (train_model tokens)) \<Longrightarrow> length w = 1"
  by (auto simp add: train_model_eq chars_of_def)

lemma unigrams_train_model:
  assumes "w \<in> set (context_counts (train_model tokens) [])"
  shows "w \<in> set (vocab_counts (train_model tokens))"
proof -
  define V where "V = concat (map chars_of tokens)"
  have "w \<in> set (context_counts (train_model tokens) [])
          \<Longrightarrow> \<exists>x \<in> set V. w = vocab_lookup V x"
    unfolding train_model_eq context_counts_def V_def by fastforce
  then obtain x where x: "x \<in> set V" "w = vocab_lookup V x"
    using assms by blast
  then have "w = x" by (simp add: vocab_lookup_def)
  then show ?thesis using x by (simp add: train_model_eq V_def)
qed

lemma score_train_model_zero:
  assumes "length w \<noteq> 1"
  shows "score (train_model tokens) w [] = 0"
proof -
  define m where "m = train_model tokens"
  have notin: "w \<notin> set (vocab_counts m)"
    using vocab_train_model_length [of w tokens] assms by (auto simp add: m_def)
  then have lk: "vocab_lookup (vocab_counts m) w = ''<UNK>''"
    by (simp add: vocab_lookup_def)
  have "''<UNK>'' \<notin> set (vocab_counts m)"
    using vocab_train_model_length [of "''<UNK>''" tokens] by (auto simp add: m_def)
  then have "''<UNK>'' \<notin> set (context_counts m [])"
    using unigrams_train_model [of "''<UNK>''" tokens] by (auto simp add: m_def)
  then have "count_list (context_counts m []) ''<UNK>'' = 0"
    by (simp only: count_list_0_iff not_False_eq_True)
  then show ?thesis
    by (simp add: score_def freq_def lk flip: m_def)
qed

lemma calculate_perplexity_train_model:
  "calculate_perplexity nl text (train_model corpus) = Inr PInf"
proof -
  define m where "m = train_model corpus"
  define padded where "padded = ''<s>'' # preprocess_text nl text @ [''</s>'']"
  have z: "score m ''<s>'' [] = 0"
    unfolding m_def by (rule score_train_model_zero) simp
  have "ngram_probabilities m (map (\<lambda>x. [x]) padded) = map (\<lambda>x. score m x []) padded"
    by (simp add: ngram_probabilities_def comp_def)
  then have "prod_list (ngram_probabilities m (map (\<lambda>x. [x]) padded)) = 0"
    using z by (simp add: padded_def)
  moreover have "map (\<lambda>x. [x]) padded \<noteq> []"
    by (simp add: padded_def)
  ultimately have "perplexity m (map (\<lambda>x. [x]) padded) = Inr PInf"
    by (simp add: perplexity_cases)
  then show ?thesis
    unfolding calculate_perplexity_eq order_train_model ngrams_one
    by (simp only: m_def padded_def)
qed

lemma text_analysis_never_likely:
  "Analysis_Result ''Likely generated by a language model''
     \<notin> set (fst (text_analysis nl corpus text))"
  by (simp add: text_analysis_def calculate_perplexity_train_model is_generated_text_def Let_def
      split: sum.splits)

lemma text_analysis_no_tokens:
  assumes "preprocess_text nl text = []"
  shows "text_analysis nl corpus text
           = (if text = [] then ([Warning], None)
              else ([Perplexity PInf], Some ZeroDivisionError))"
proof -
  have "calculate_burstiness nl text = Inl ZeroDivisionError"
    using assms by (simp add: calculate_burstiness_eq)
  then show ?thesis
    by (simp add: text_analysis_def calculate_perplexity_train_model)
qed

section \<open>The perplexity formula\<close>

lemma toy_tokens_x_y: "preprocess_text toy_nltk ''x y'' = [''x'', ''y'']"
  by code_simp

lemma order_toy_bigram_model: "order toy_bigram_model = 2"
  by code_simp

lemma toy_bigrams:
  "ngrams [''<s>'', ''x'', ''y'', ''</s>''] 2
     = [[''<s>'', ''x''], [''x'', ''y''], [''y'', ''</s>'']]"
  by code_simp

lemma toy_bigram_scores:
  "score toy_bigram_model ''x'' [''<s>''] = 1"
  "score toy_bigram_model ''y'' [''x''] = 1 / 2"
  "score toy_bigram_model ''</s>'' [''y''] = 1"
proof -
  have c1: "context_counts toy_bigram_model
              (map (vocab_lookup (vocab_counts toy_bigram_model)) [''<s>'']) = [''x'', ''x'']"
    by code_simp
  have c2: "context_counts toy_bigram_model
              (map (vocab_lookup (vocab_counts toy_bigram_model)) [''x'']) = [''y'', ''z'']"
    by code_simp
  have c3: "context_counts toy_bigram_model
              (map (vocab_lookup (vocab_counts toy_bigram_model)) [''y'']) = [''</s>'']"
    by code_simp
  have l1: "vocab_lookup (vocab_counts toy_bigram_model) ''x'' = ''x''"
    by code_simp
  have l2: "vocab_lookup (vocab_counts toy_bigram_model) ''y'' = ''y''"
    by code_simp
  have l3: "vocab_lookup (vocab_counts toy_bigram_model) ''</s>'' = ''</s>''"
    by code_simp
  show "score toy_bigram_model ''x'' [''<s>''] = 1"
    unfolding score_def c1 l1 by (simp add: freq_def)
  show "score toy_bigram_model ''y'' [''x''] = 1 / 2"
    unfolding score_def c2 l2 by (simp add: freq_def)
  show "score toy_bigram_model ''</s>'' [''y''] = 1"
    unfolding score_def c3 l3 by (simp add: freq_def)
qed

lemma toy_bigram_probabilities:
  "ngram_probabilities toy_bigram_model
     [[''<s>'', ''x''], [''x'', ''y''], [''y'', ''</s>'']] = [1, 1 / 2, 1]"
  by (simp add: ngram_probabilities_def toy_bigram_scores)

text \<open>
  Claim C6, as stated, fails: for the text "hello world" and the model that main
  trains (here on the corpus "the", "cat") the product \<open>P\<close> of the queried
  probabilities is 0, for which \<open>P^(-1/N)\<close> is no number, and the code returns
  +infinity.
\<close>

theorem calculate_perplexity_formula_counterexample:
  "prod_list (ngram_probabilities (train_model [''the'', ''cat''])
       (ngrams ([''<s>''] @ preprocess_text toy_nltk ''hello world'' @ [''</s>''])
               (order (train_model [''the'', ''cat''])))) = 0
   \<and> calculate_perplexity toy_nltk ''hello world'' (train_model [''the'', ''cat'']) = Inr PInf
   \<and> (\<forall>r. calculate_perplexity toy_nltk ''hello world'' (train_model [''the'', ''cat''])
            \<noteq> Inr (Fin r))"
proof -
  have z: "score (train_model [''the'', ''cat'']) ''<s>'' [] = 0"
    by (rule score_train_model_zero) simp
  have "prod_list (ngram_probabilities (train_model [''the'', ''cat''])
       (ngrams ([''<s>''] @ preprocess_text toy_nltk ''hello world'' @ [''</s>''])
               (order (train_model [''the'', ''cat''])))) = 0"
    unfolding order_train_model ngrams_one
    by (simp add: ngram_probabilities_def z)
  then show ?thesis
    by (simp add: calculate_perplexity_train_model)
qed

text \<open>
  Claim C6, amended. For every text and every model, perplexity evaluation pads the
  preprocessed tokens with \<open><s>\<close> in front and \<open></s>\<close> behind, takes all
  the n-grams of the model's order from the padded sequence (the window at every
  position, from left to right) and, with \<open>P\<close> the product of the conditional
  probabilities of these \<open>N\<close> n-grams, returns \<open>P^(-1/N)\<close> when \<open>N > 0\<close> and no
  probability is zero, returns +infinity when \<open>N > 0\<close> and some probability is
  zero, and raises ZeroDivisionError when the padded sequence is shorter than the
  order, so that there is no n-gram.
\<close>

theorem calculate_perplexity_formula:
  "calculate_perplexity nl text m =
     (let padded = [''<s>''] @ preprocess_text nl text @ [''</s>''];
          gs = ngrams padded (order m);
          P = prod_list (ngram_probabilities m gs);
          N = length gs
      in if N = 0 then Inl ZeroDivisionError
         else if P = 0 then Inr PInf
         else Inr (Fin (P powr (- 1 / real N))))
   \<and> length (ngrams ([''<s>''] @ preprocess_text nl text @ [''</s>'']) (order m))
        = (if order m = 0 then 0 else length (preprocess_text nl text) + 3 - order m)
   \<and> (\<forall>i < length (ngrams ([''<s>''] @ preprocess_text nl text @ [''</s>'']) (order m)).
         ngrams ([''<s>''] @ preprocess_text nl text @ [''</s>'']) (order m) ! i
           = take (order m) (drop i ([''<s>''] @ preprocess_text nl text @ [''</s>''])))"
proof (intro conjI allI impI)
  show "calculate_perplexity nl text m =
     (let padded = [''<s>''] @ preprocess_text nl text @ [''</s>''];
          gs = ngrams padded (order m);
          P = prod_list (ngram_probabilities m gs);
          N = length gs
      in if N = 0 then Inl ZeroDivisionError
         else if P = 0 then Inr PInf
         else Inr (Fin (P powr (- 1 / real N))))"
    by (simp add: calculate_perplexity_eq perplexity_cases Let_def)
  show "length (ngrams ([''<s>''] @ preprocess_text nl text @ [''</s>'']) (order m))
        = (if order m = 0 then 0 else length (preprocess_text nl text) + 3 - order m)"
    by (simp add: length_ngrams numeral_3_eq_3)
next
  fix i assume "i < length (ngrams ([''<s>''] @ preprocess_text nl text @ [''</s>'']) (order m))"
  then show "ngrams ([''<s>''] @ preprocess_text nl text @ [''</s>'']) (order m) ! i
           = take (order m) (drop i ([''<s>''] @ preprocess_text nl text @ [''</s>'']))"
    by (rule ngrams_nth)
qed

theorem calculate_perplexity_formula_witness:
  "calculate_perplexity toy_nltk ''x y'' toy_bigram_model = Inr (Fin ((1 / 2) powr (- 1 / 3)))
   \<and> ngrams ([''<s>''] @ preprocess_text toy_nltk ''x y'' @ [''</s>'']) (order toy_bigram_model)
        = [[''<s>'', ''x''], [''x'', ''y''], [''y'', ''</s>'']]"
proof -
  note t = calculate_perplexity_formula [of toy_nltk "''x y''" toy_bigram_model]
  have g: "ngrams ([''<s>''] @ preprocess_text toy_nltk ''x y'' @ [''</s>'']) (order toy_bigram_model)
             = [[''<s>'', ''x''], [''x'', ''y''], [''y'', ''</s>'']]"
    unfolding toy_tokens_x_y order_toy_bigram_model using toy_bigrams by simp
  have "calculate_perplexity toy_nltk ''x y'' toy_bigram_model = Inr (Fin ((1 / 2) powr (- 1 / 3)))"
    using t unfolding Let_def g toy_bigram_probabilities by simp
  then show ?thesis using g by (rule conjI)
qed

section \<open>Positive and finite perplexity\<close>

lemma perplexity_positive:
  assumes "gs \<noteq> []"
  shows "\<exists>p. perplexity m gs = Inr p \<and> flt (Fin 0) p
           \<and> ((\<exists>r. p = Fin r) = (0 \<notin> set (ngram_probabilities m gs)))
           \<and> ((p = PInf) = (0 \<in> set (ngram_probabilities m gs)))"
proof (cases "prod_list (ngram_probabilities m gs) = 0")
  case True
  then have "0 \<in> set (ngram_probabilities m gs)"
    by (simp only: prod_list_zero_iff)
  moreover have "perplexity m gs = Inr PInf"
    using assms True by (simp add: perplexity_cases)
  ultimately show ?thesis by simp
next
  case False
  then have nz: "0 \<notin> set (ngram_probabilities m gs)"
    by (simp only: prod_list_zero_iff not_False_eq_True)
  have "0 < prod_list (ngram_probabilities m gs) powr (- 1 / real (length gs))"
    using False by (simp only: powr_gt_zero not_False_eq_True)
  moreover have "perplexity m gs
      = Inr (Fin (prod_list (ngram_probabilities m gs) powr (- 1 / real (length gs))))"
    using assms False by (simp add: perplexity_cases)
  ultimately show ?thesis using nz by simp
qed

lemma toy_tokens_x_q: "preprocess_text toy_nltk ''x q'' = [''x'', ''q'']"
  by code_simp

lemma toy_bigrams_x_q:
  "ngrams [''<s>'', ''x'', ''q'', ''</s>''] 2
     = [[''<s>'', ''x''], [''x'', ''q''], [''q'', ''</s>'']]"
  by code_simp

lemma toy_bigram_score_unknown: "score toy_bigram_model ''q'' [''x''] = 0"
proof -
  have c: "context_counts toy_bigram_model
             (map (vocab_lookup (vocab_counts toy_bigram_model)) [''x'']) = [''y'', ''z'']"
    by code_simp
  have l: "vocab_lookup (vocab_counts toy_bigram_model) ''q'' = ''<UNK>''"
    by code_simp
  show ?thesis
    unfolding score_def c l by (simp add: freq_def)
qed

text \<open>
  Claim C2, as stated, fails: the text "x q" has the two tokens "x" and "q" after
  preprocessing, and against a bigram model fitted on the sentences "x y" and "x z"
  the word "q" is out of vocabulary, the queried bigram ("x", "q") receives
  probability exactly zero, and the perplexity is +infinity.
\<close>

theorem calculate_perplexity_positive_counterexample:
  "preprocess_text toy_nltk ''x q'' = [''x'', ''q'']
   \<and> score toy_bigram_model ''q'' [''x''] = 0
   \<and> calculate_perplexity toy_nltk ''x q'' toy_bigram_model = Inr PInf"
proof -
  have g: "ngrams (''<s>'' # preprocess_text toy_nltk ''x q'' @ [''</s>'']) (order toy_bigram_model)
             = [[''<s>'', ''x''], [''x'', ''q''], [''q'', ''</s>'']]"
    unfolding toy_tokens_x_q order_toy_bigram_model using toy_bigrams_x_q by simp
  have "prod_list (ngram_probabilities toy_bigram_model
          [[''<s>'', ''x''], [''x'', ''q''], [''q'', ''</s>'']]) = 0"
    by (simp add: ngram_probabilities_def toy_bigram_score_unknown)
  then have "calculate_perplexity toy_nltk ''x q'' toy_bigram_model = Inr PInf"
    unfolding calculate_perplexity_eq g by (simp add: perplexity_cases)
  then show ?thesis
    using toy_tokens_x_q toy_bigram_score_unknown by (intro conjI)
qed

text \<open>
  Claim C2, amended. For every text and every model for which the padded token
  sequence yields an n-gram, which is the case exactly when the order of the model is
  at least 1 and at most the number of tokens plus 2, the computed perplexity is
  strictly greater than 0; it is finite exactly when no queried n-gram receives
  probability zero, and it is +infinity exactly when one does. A zero probability is
  not excluded: the maximum-likelihood model has no smoothing, and the unknown-token
  label that stands in for an out-of-vocabulary word has not been counted.
\<close>

theorem calculate_perplexity_positive:
  "(ngrams ([''<s>''] @ preprocess_text nl text @ [''</s>'']) (order m) \<noteq> [] \<longrightarrow>
      (\<exists>p. calculate_perplexity nl text m = Inr p \<and> flt (Fin 0) p
         \<and> ((\<exists>r. p = Fin r)
              = (0 \<notin> set (ngram_probabilities m
                    (ngrams ([''<s>''] @ preprocess_text nl text @ [''</s>'']) (order m)))))
         \<and> ((p = PInf)
              = (0 \<in> set (ngram_probabilities m
                    (ngrams ([''<s>''] @ preprocess_text nl text @ [''</s>'']) (order m)))))))
   \<and> (ngrams ([''<s>''] @ preprocess_text nl text @ [''</s>'']) (order m) = [])
        = (order m = 0 \<or> length (preprocess_text nl text) + 2 < order m)"
proof (intro conjI impI)
  assume "ngrams ([''<s>''] @ preprocess_text nl text @ [''</s>'']) (order m) \<noteq> []"
  then show "\<exists>p. calculate_perplexity nl text m = Inr p \<and> flt (Fin 0) p
         \<and> ((\<exists>r. p = Fin r)
              = (0 \<notin> set (ngram_probabilities m
                    (ngrams ([''<s>''] @ preprocess_text nl text @ [''</s>'']) (order m)))))
         \<and> ((p = PInf)
              = (0 \<in> set (ngram_probabilities m
                    (ngrams ([''<s>''] @ preprocess_text nl text @ [''</s>'']) (order m)))))"
    using perplexity_positive [of "ngrams ([''<s>''] @ preprocess_text nl text @ [''</s>'']) (order m)" m]
    by (simp add: calculate_perplexity_eq)
next
  show "(ngrams ([''<s>''] @ preprocess_text nl text @ [''</s>'']) (order m) = [])
        = (order m = 0 \<or> length (preprocess_text nl text) + 2 < order m)"
    by (simp add: ngrams_Nil_iff)
qed

theorem calculate_perplexity_positive_witness:
  "ngrams ([''<s>''] @ preprocess_text toy_nltk ''x y'' @ [''</s>'']) (order toy_bigram_model) \<noteq> []
   \<and> (\<exists>r. 0 < r \<and> calculate_perplexity toy_nltk ''x y'' toy_bigram_model = Inr (Fin r))"
proof -
  note t = calculate_perplexity_positive [of toy_nltk "''x y''" toy_bigram_model]
  have g: "ngrams ([''<s>''] @ preprocess_text toy_nltk ''x y'' @ [''</s>'']) (order toy_bigram_model)
             = [[''<s>'', ''x''], [''x'', ''y''], [''y'', ''</s>'']]"
    unfolding toy_tokens_x_y order_toy_bigram_model using toy_bigrams by simp
  have ne: "ngrams ([''<s>''] @ preprocess_text toy_nltk ''x y'' @ [''</s>'']) (order toy_bigram_model) \<noteq> []"
    by (simp only: g) simp
  obtain p where p: "calculate_perplexity toy_nltk ''x y'' toy_bigram_model = Inr p"
      "flt (Fin 0) p"
      "(\<exists>r. p = Fin r) = (0 \<notin> set (ngram_probabilities toy_bigram_model
          (ngrams ([''<s>''] @ preprocess_text toy_nltk ''x y'' @ [''</s>'']) (order toy_bigram_model))))"
    using t ne by blast
  have "0 \<notin> set (ngram_probabilities toy_bigram_model
          (ngrams ([''<s>''] @ preprocess_text toy_nltk ''x y'' @ [''</s>'']) (order toy_bigram_model)))"
    unfolding g toy_bigram_probabilities by simp
  then obtain r where r: "p = Fin r" using p(3) by blast
  then have "0 < r" using p(2) by simp
  then have a: "\<exists>r. 0 < r \<and> calculate_perplexity toy_nltk ''x y'' toy_bigram_model = Inr (Fin r)"
    using p(1) r by blast
  show ?thesis
    using ne a by (intro conjI)
qed

section \<open>Texts without tokens\<close>

lemma order_toy_pause_model: "order toy_pause_model = 2"
  by (simp add: toy_pause_model_def padded_everygram_pipeline_def MLE_fit_def)

lemma padding_bigrams: "ngrams [''<s>'', ''</s>''] 2 = [[''<s>'', ''</s>'']]"
  by code_simp

lemma toy_pause_score: "score toy_pause_model ''</s>'' [''<s>''] = 1 / 2"
proof -
  have c: "context_counts toy_pause_model
             (map (vocab_lookup (vocab_counts toy_pause_model)) [''<s>'']) = [''</s>'', ''x'']"
    by code_simp
  have l: "vocab_lookup (vocab_counts toy_pause_model) ''</s>'' = ''</s>''"
    by code_simp
  show ?thesis
    unfolding score_def c l by (simp add: freq_def)
qed

lemma toy_pause_perplexity: "perplexity toy_pause_model [[''<s>'', ''</s>'']] = Inr (Fin 2)"
  by (simp add: perplexity_cases ngram_probabilities_def toy_pause_score powr_minus)

text \<open>
  Claim C5, as stated, fails: the text "the" has no token after preprocessing, and
  its perplexity is computed all the same, over the padding symbols alone, and
  returned as a number: against a bigram model that has seen an empty sentence among
  two sentences the result is 2.
\<close>

theorem empty_text_statistics_counterexample:
  "preprocess_text toy_nltk ''the'' = []
   \<and> calculate_perplexity toy_nltk ''the'' toy_pause_model = Inr (Fin 2)"
proof -
  have "calculate_perplexity toy_nltk ''the'' toy_pause_model
          = perplexity toy_pause_model (ngrams [''<s>'', ''</s>''] 2)"
    unfolding calculate_perplexity_eq toy_tokens_the order_toy_pause_model by simp
  then have "calculate_perplexity toy_nltk ''the'' toy_pause_model = Inr (Fin 2)"
    by (simp only: padding_bigrams toy_pause_perplexity)
  then show ?thesis
    using toy_tokens_the by (intro conjI)
qed

text \<open>
  Claim C5, amended. For every text whose preprocessing yields zero tokens, the
  burstiness computation raises ZeroDivisionError and returns no number (there is no
  EmptyInputError), whereas the perplexity computation is the perplexity of the
  n-grams of the padding \<open><s>\<close>, \<open></s>\<close> alone: for a model of order 1 or 2 it
  returns a float greater than 0, and for any other order the padding has no n-gram
  and it raises ZeroDivisionError.
\<close>

theorem empty_text_statistics:
  "preprocess_text nl text = [] \<longrightarrow>
     calculate_burstiness nl text = Inl ZeroDivisionError
     \<and> calculate_perplexity nl text m = perplexity m (ngrams [''<s>'', ''</s>''] (order m))
     \<and> (order m = 1 \<or> order m = 2 \<longrightarrow>
          (\<exists>p. calculate_perplexity nl text m = Inr p \<and> flt (Fin 0) p))
     \<and> (order m = 0 \<or> 2 < order m \<longrightarrow>
          calculate_perplexity nl text m = Inl ZeroDivisionError)"
proof (intro impI conjI)
  assume e: "preprocess_text nl text = []"
  show "calculate_burstiness nl text = Inl ZeroDivisionError"
    using e by (simp add: calculate_burstiness_eq)
  show c: "calculate_perplexity nl text m = perplexity m (ngrams [''<s>'', ''</s>''] (order m))"
    using e by (simp add: calculate_perplexity_eq)
  {
    assume "order m = 1 \<or> order m = 2"
    then have "ngrams [''<s>'', ''</s>''] (order m) \<noteq> []"
      by (auto simp add: ngrams_Nil_iff)
    then have "\<exists>p. perplexity m (ngrams [''<s>'', ''</s>''] (order m)) = Inr p \<and> flt (Fin 0) p"
      using perplexity_positive [of "ngrams [''<s>'', ''</s>''] (order m)" m] by blast
    then show "\<exists>p. calculate_perplexity nl text m = Inr p \<and> flt (Fin 0) p"
      by (simp only: c)
  }
  {
    assume "order m = 0 \<or> 2 < order m"
    then have "ngrams [''<s>'', ''</s>''] (order m) = []"
      by (auto simp add: ngrams_Nil_iff)
    then show "calculate_perplexity nl text m = Inl ZeroDivisionError"
      by (simp add: c perplexity_cases)
  }
qed

theorem empty_text_statistics_witness:
  "preprocess_text toy_nltk ''the'' = []
   \<and> order toy_pause_model = 2
   \<and> calculate_burstiness toy_nltk ''the'' = Inl ZeroDivisionError
   \<and> calculate_perplexity toy_nltk ''the'' toy_pause_model = Inr (Fin 2)
   \<and> 2 < order (toy_pause_model\<lparr>order := 3\<rparr>)
   \<and> calculate_perplexity toy_nltk ''the'' (toy_pause_model\<lparr>order := 3\<rparr>) = Inl ZeroDivisionError"
proof -
  note t = empty_text_statistics [of toy_nltk "''the''" toy_pause_model]
  note u = empty_text_statistics [of toy_nltk "''the''" "toy_pause_model\<lparr>order := 3\<rparr>"]
  have b: "calculate_burstiness toy_nltk ''the'' = Inl ZeroDivisionError"
    using t toy_tokens_the by blast
  have "calculate_perplexity toy_nltk ''the'' toy_pause_model
          = perplexity toy_pause_model (ngrams [''<s>'', ''</s>''] (order toy_pause_model))"
    using t toy_tokens_the by blast
  then have p: "calculate_perplexity toy_nltk ''the'' toy_pause_model = Inr (Fin 2)"
    by (simp only: order_toy_pause_model padding_bigrams toy_pause_perplexity)
  have o: "2 < order (toy_pause_model\<lparr>order := 3\<rparr>)"
    by simp
  have z: "calculate_perplexity toy_nltk ''the'' (toy_pause_model\<lparr>order := 3\<rparr>) = Inl ZeroDivisionError"
    using u toy_tokens_the o by blast
  show ?thesis
    using toy_tokens_the order_toy_pause_model b p o z by (intro conjI)
qed

section \<open>The preprocessor's filter\<close>

lemma str_contains_iff: "str_contains b a \<longleftrightarrow> (\<exists>ps ss. b = ps @ a @ ss)"
proof (induction b)
  case Nil
  show ?case by simp
next
  case (Cons c cs)
  have pre: "take (length a) (c # cs) = a \<longleftrightarrow> (\<exists>ss. c # cs = a @ ss)"
  proof
    assume "take (length a) (c # cs) = a"
    then have "c # cs = a @ drop (length a) (c # cs)"
      using append_take_drop_id [of "length a" "c # cs"] by simp
    then show "\<exists>ss. c # cs = a @ ss" by blast
  next
    assume "\<exists>ss. c # cs = a @ ss"
    then obtain ss where "c # cs = a @ ss" by blast
    then show "take (length a) (c # cs) = a" by simp
  qed
  have "(\<exists>ps ss. c # cs = ps @ a @ ss)
          \<longleftrightarrow> (\<exists>ss. c # cs = a @ ss) \<or> (\<exists>ps ss. cs = ps @ a @ ss)"
  proof
    assume "\<exists>ps ss. c # cs = ps @ a @ ss"
    then obtain ps ss where e: "c # cs = ps @ a @ ss" by blast
    show "(\<exists>ss. c # cs = a @ ss) \<or> (\<exists>ps ss. cs = ps @ a @ ss)"
    proof (cases ps)
      case Nil
      then show ?thesis using e by auto
    next
      case (Cons p ps')
      then have "cs = ps' @ a @ ss" using e by simp
      then show ?thesis by blast
    qed
  next
    assume "(\<exists>ss. c # cs = a @ ss) \<or> (\<exists>ps ss. cs = ps @ a @ ss)"
    then show "\<exists>ps ss. c # cs = ps @ a @ ss"
    proof
      assume "\<exists>ss. c # cs = a @ ss"
      then obtain ss where "c # cs = [] @ a @ ss" by auto
      then show ?thesis by blast
    next
      assume "\<exists>ps ss. cs = ps @ a @ ss"
      then obtain ps ss where "cs = ps @ a @ ss" by blast
      then have "c # cs = (c # ps) @ a @ ss" by simp
      then show ?thesis by blast
    qed
  qed
  then show ?case using pre Cons.IH by simp
qed

lemma preprocess_text_filter:
  assumes "token \<in> set (preprocess_text nl text)"
  shows "token \<in> set (word_tokenize nl (lower text))"
    and "token \<notin> set (stopwords_english nl)"
    and "\<not> str_contains string_punctuation token"
  using assms by (simp_all add: preprocess_text_def)

lemma single_punctuation_removed:
  assumes "c \<in> set string_punctuation"
  shows "[c] \<notin> set (preprocess_text nl text)"
proof -
  obtain ps ss where "string_punctuation = ps @ c # ss"
    using assms by (meson split_list)
  then have "string_punctuation = ps @ [c] @ ss" by simp
  then have "str_contains string_punctuation [c]"
    unfolding str_contains_iff by blast
  then show ?thesis using preprocess_text_filter [of "[c]" nl "text"] by blast
qed

text \<open>
  Claim C9. The preprocessor removes the punctuation tokens that occur in
  \<open>string.punctuation\<close> as a substring, single punctuation characters among them,
  but not every punctuation-only token: in the text "Wait ... what" the token
  \<open>...\<close> consists of punctuation characters only and is kept.
\<close>

theorem preprocess_text_keeps_ellipsis:
  "preprocess_text toy_nltk ''Wait ... what'' = [''wait'', ''...'']
   \<and> punctuation_only ''...''"
proof -
  have "preprocess_text toy_nltk ''Wait ... what'' = [''wait'', ''...'']"
    by code_simp
  moreover have "punctuation_only ''...''"
    by (simp add: punctuation_only_def string_punctuation_def)
  ultimately show ?thesis by (rule conjI)
qed

end
